theory Spec2Isabelle
  imports Complex_Main "HOL-Library.Sublist"
begin

section \<open>Benders decomposition for discounted MDPs: the driver script\<close>

text \<open>
  The development embeds \<^verbatim>\<open>scripts/general_MDP/main.py\<close>: the instance generator
  \<^verbatim>\<open>define_MDP\<close>, the master LP constructor \<^verbatim>\<open>define_MP\<close> and the part of the
  experiment drivers that hands the master LP to the decomposition engine.

  Conventions of the embedding.
  \<^item> A NumPy \<^verbatim>\<open>float64\<close> is an exact \<^typ>\<open>real\<close>: rounding is not modelled.
  \<^item> A NumPy matrix is a list of rows, a vector is a list.
  \<^item> A Python exception is a value \<open>Inl e\<close> of the result type.
\<close>

datatype py_error = IndexError | ValueError | TypeError | ZeroDivisionError | UnboundLocalError

subsection \<open>The Gurobi model object\<close>

text \<open>
  \<^verbatim>\<open>gurobipy\<close> is an external library. A model object is a record of what the script
  sets on it: parameters, variables, the objective with its sense, and the linear
  constraints. \<^verbatim>\<open>GRB.INFINITY\<close> is the library's constant \<open>1e100\<close>; Gurobi reads every
  bound of absolute value \<open>1e20\<close> or more as infinite.
\<close>

datatype param_value = PBool bool | PInt int | PReal real

datatype var_type = CONTINUOUS | BINARY | INTEGER

datatype obj_sense = MINIMIZE | MAXIMIZE

record grb_var =
  var_name :: string
  lb :: real
  ub :: real
  vtype :: var_type

text \<open>A linear expression is a list of terms (coefficient, index of the variable).\<close>

type_synonym lin_expr = "(real \<times> nat) list"

text \<open>A constraint \<open>lhs \<ge> rhs_const\<close>, where \<open>lhs\<close> is linear in the variables.\<close>

record grb_constr =
  constr_lhs :: lin_expr
  constr_rhs :: real

record grb_model =
  grb_params :: "string \<rightharpoonup> param_value"
  grb_vars :: "grb_var list"
  grb_objective :: lin_expr
  grb_sense :: obj_sense
  grb_constrs :: "grb_constr list"

definition GRB_INFINITY :: real where
  "GRB_INFINITY = 10 ^ 100"

definition grb_Model :: grb_model where
  "grb_Model = \<lparr>grb_params = Map.empty, grb_vars = [], grb_objective = [], grb_sense = MINIMIZE, grb_constrs = []\<rparr>"

definition setParam :: "string \<Rightarrow> param_value \<Rightarrow> grb_model \<Rightarrow> grb_model" where
  "setParam k v m = m\<lparr>grb_params := (grb_params m)(k \<mapsto> v)\<rparr>"

definition addVar :: "real \<Rightarrow> real \<Rightarrow> var_type \<Rightarrow> string \<Rightarrow> grb_model \<Rightarrow> grb_model" where
  "addVar l u t nm m = m\<lparr>grb_vars := grb_vars m @ [\<lparr>var_name = nm, lb = l, ub = u, vtype = t\<rparr>]\<rparr>"

definition setObjective :: "lin_expr \<Rightarrow> obj_sense \<Rightarrow> grb_model \<Rightarrow> grb_model" where
  "setObjective e s m = m\<lparr>grb_objective := e, grb_sense := s\<rparr>"

definition is_unbounded_below :: "grb_var \<Rightarrow> bool" where
  "is_unbounded_below v \<longleftrightarrow> lb v \<le> - (10 ^ 20)"

definition has_no_upper_bound :: "grb_var \<Rightarrow> bool" where
  "has_no_upper_bound v \<longleftrightarrow> 10 ^ 20 \<le> ub v"

definition is_free :: "grb_var \<Rightarrow> bool" where
  "is_free v \<longleftrightarrow> is_unbounded_below v \<and> has_no_upper_bound v"

text \<open>The value of a linear expression at an assignment of the variables.\<close>

definition eval_lin :: "lin_expr \<Rightarrow> real list \<Rightarrow> real" where
  "eval_lin e \<theta> = (\<Sum>(c, i) \<leftarrow> e. c * \<theta> ! i)"

subsection \<open>\<^verbatim>\<open>define_MP\<close>\<close>

text \<open>Python's \<^verbatim>\<open>"theta_{}".format(s)\<close> for a non-negative integer \<open>s\<close>.\<close>

fun str_nat :: "nat \<Rightarrow> string" where
  "str_nat n = (if n < 10 then [char_of (48 + n)]
                else str_nat (n div 10) @ [char_of (48 + n mod 10)])"

declare str_nat.simps [simp del]

text \<open>
  The loop \<^verbatim>\<open>for s in state_dict.keys(): var_theta[s] = model.addVar(...)\<close>; the keys are
  \<open>0, ..., len(states) - 1\<close> in this order, and \<^verbatim>\<open>var_theta[s]\<close> is the variable of
  index \<open>s\<close>.
\<close>

fun add_theta_vars :: "nat list \<Rightarrow> grb_model \<Rightarrow> grb_model" where
  "add_theta_vars [] m = m"
| "add_theta_vars (s # ss) m =
     add_theta_vars ss (addVar (- (10 ^ 10)) GRB_INFINITY CONTINUOUS (''theta_'' @ str_nat s) m)"

text \<open>
  \<^verbatim>\<open>define_MP(states, initial_distr)\<close>. The only read that can fail is
  \<^verbatim>\<open>initial_distr[s]\<close> in the objective, for a distribution shorter than the state list.
\<close>

definition define_MP :: "nat list \<Rightarrow> real list \<Rightarrow> py_error + grb_model" where
  "define_MP states initial_distr =
     (let keys = [0..<length states];
          model = grb_Model;
          model = setParam ''OutputFlag'' (PBool False) model;
          model = setParam ''IntFeasTol'' (PReal (1 / 10 ^ 9)) model;
          model = setParam ''NumericFocus'' (PInt 3) model;
          model = setParam ''DualReductions'' (PInt 0) model;
          model = add_theta_vars keys model
      in if length initial_distr < length states then Inl IndexError
         else Inr (setObjective (map (\<lambda>s. (initial_distr ! s, s)) keys) MINIMIZE model))"

subsection \<open>Python numbers, NumPy and SciPy helpers\<close>

text \<open>An entry of the tuple \<^verbatim>\<open>params\<close> is a Python \<^verbatim>\<open>int\<close> or \<^verbatim>\<open>float\<close>.\<close>

datatype pynum = PyInt int | PyFloat real

text \<open>Python's \<^verbatim>\<open>int(x)\<close>: the identity on an int, truncation toward zero on a float.\<close>

fun py_int :: "pynum \<Rightarrow> int" where
  "py_int (PyInt n) = n"
| "py_int (PyFloat x) = (if 0 \<le> x then \<lfloor>x\<rfloor> else \<lceil>x\<rceil>)"

fun py_float :: "pynum \<Rightarrow> real" where
  "py_float (PyInt n) = real_of_int n"
| "py_float (PyFloat x) = x"

fun is_py_int :: "pynum \<Rightarrow> bool" where
  "is_py_int (PyInt n) = True"
| "is_py_int (PyFloat x) = False"

text \<open>
  The global NumPy generator. Its algorithm is outside the repository, so the generator
  is a parameter: a state type \<open>'g\<close>, the state set by \<^verbatim>\<open>np.random.seed(n)\<close>, and the
  three primitive draws the script reaches, each returning the value drawn and the next
  state. \<^verbatim>\<open>scipy.stats\<close> draws from the same global generator.
\<close>

record 'g np_random =
  seed :: "nat \<Rightarrow> 'g"
  random_sample :: "'g \<Rightarrow> real \<times> 'g"
  standard_normal :: "'g \<Rightarrow> real \<times> 'g"
  randint :: "int \<Rightarrow> int \<Rightarrow> 'g \<Rightarrow> int \<times> 'g"

text \<open>\<open>n\<close> successive draws, in order.\<close>

primrec draws :: "('g \<Rightarrow> 'a \<times> 'g) \<Rightarrow> nat \<Rightarrow> 'g \<Rightarrow> 'a list \<times> 'g" where
  "draws f 0 g = ([], g)"
| "draws f (Suc n) g =
     (let (x, g1) = f g; (xs, g2) = draws f n g1 in (x # xs, g2))"

text \<open>\<^verbatim>\<open>np.random.rand(n)\<close> and \<^verbatim>\<open>np.random.rand(r, c)\<close> (filled row by row).\<close>

definition np_rand :: "'g np_random \<Rightarrow> nat \<Rightarrow> 'g \<Rightarrow> real list \<times> 'g" where
  "np_rand G n g = draws (random_sample G) n g"

definition np_rand2 :: "'g np_random \<Rightarrow> nat \<Rightarrow> nat \<Rightarrow> 'g \<Rightarrow> real list list \<times> 'g" where
  "np_rand2 G r c g = draws (np_rand G c) r g"

text \<open>
  \<^verbatim>\<open>st.uniform.rvs(loc, scale, size=n)\<close> is \<open>loc + scale * u\<close> for uniform draws \<open>u\<close>;
  \<^verbatim>\<open>st.norm.rvs(loc, scale, size=1)[0]\<close> is \<open>loc + scale * z\<close> for a standard normal draw.
  Both raise \<^verbatim>\<open>ValueError\<close> for a negative scale or size; the callers test for it.
\<close>

definition uniform_rvs :: "'g np_random \<Rightarrow> real \<Rightarrow> real \<Rightarrow> nat \<Rightarrow> 'g \<Rightarrow> real list \<times> 'g" where
  "uniform_rvs G loc scale n g =
     (let (us, g1) = draws (random_sample G) n g in (map (\<lambda>u. loc + scale * u) us, g1))"

definition uniform_rvs1 :: "'g np_random \<Rightarrow> real \<Rightarrow> real \<Rightarrow> 'g \<Rightarrow> real \<times> 'g" where
  "uniform_rvs1 G loc scale g =
     (let (u, g1) = random_sample G g in (loc + scale * u, g1))"

definition norm_rvs1 :: "'g np_random \<Rightarrow> real \<Rightarrow> real \<Rightarrow> 'g \<Rightarrow> real \<times> 'g" where
  "norm_rvs1 G loc scale g =
     (let (z, g1) = standard_normal G g in (loc + scale * z, g1))"

text \<open>
  \<^verbatim>\<open>st.norm.pdf(x, loc, scale)\<close> for a positive scale and \<^verbatim>\<open>st.poisson.pmf(k, mu)\<close> for
  \<open>mu \<ge> 0\<close>. Outside these ranges SciPy returns \<^verbatim>\<open>nan\<close>, which a real number cannot
  represent: the theorems that depend on these values assume the ranges.
\<close>

definition norm_pdf :: "real \<Rightarrow> real \<Rightarrow> real \<Rightarrow> real" where
  "norm_pdf x loc scale = exp (- (((x - loc) / scale) ^ 2) / 2) / (sqrt (2 * pi) * scale)"

definition poisson_pmf :: "real \<Rightarrow> nat \<Rightarrow> real" where
  "poisson_pmf mu k = exp (- mu) * mu ^ k / fact k"

text \<open>
  \<^verbatim>\<open>v / v.sum(axis=0, keepdims=True)\<close> on a vector, \<^verbatim>\<open>M / M.sum(axis=1, keepdims=True)\<close>
  on a matrix.
\<close>

definition normalize :: "real list \<Rightarrow> real list" where
  "normalize v = map (\<lambda>x. x / sum_list v) v"

definition normalize_rows :: "real list list \<Rightarrow> real list list" where
  "normalize_rows M = map normalize M"

text \<open>\<^verbatim>\<open>np.linspace(start, stop, num)\<close> for \<open>num \<ge> 0\<close>.\<close>

definition linspace :: "real \<Rightarrow> real \<Rightarrow> nat \<Rightarrow> real list" where
  "linspace start stop num =
     (if num = 1 then [start]
      else map (\<lambda>k. start + real k * ((stop - start) / (real num - 1))) [0..<num])"

text \<open>\<^verbatim>\<open>np.zeros(n)\<close>, \<^verbatim>\<open>xs.index(x)\<close> for an element that occurs.\<close>

definition zeros :: "nat \<Rightarrow> real list" where
  "zeros n = replicate n 0"

definition py_index :: "'a list \<Rightarrow> 'a \<Rightarrow> nat" where
  "py_index xs x = length (takeWhile (\<lambda>y. y \<noteq> x) xs)"

text \<open>
  A dictionary filled by \<^verbatim>\<open>for a in keys: d[a] = f(a)\<close>.
\<close>

definition dict_of :: "nat list \<Rightarrow> (nat \<Rightarrow> 'v) \<Rightarrow> (nat \<rightharpoonup> 'v)" where
  "dict_of keys f = map_of (map (\<lambda>k. (k, f k)) keys)"

subsection \<open>\<^verbatim>\<open>define_MDP\<close>: what it returns\<close>

text \<open>
  The dictionary returned beside the model, with the keys \<^verbatim>\<open>states\<close>, \<^verbatim>\<open>actions\<close>,
  \<^verbatim>\<open>trans_mat\<close>, \<^verbatim>\<open>reward_mat\<close>, \<^verbatim>\<open>alpha\<close> and \<^verbatim>\<open>gamma\<close>. \<^verbatim>\<open>trans_mat\<close> is itself a
  dictionary from an action to a matrix whose entry \<open>(s, s')\<close> is \<open>P(s' | s, a)\<close>.
\<close>

record mdp_elements =
  el_states :: "nat list"
  el_actions :: "nat list"
  el_trans_mat :: "nat \<rightharpoonup> real list list"
  el_reward_mat :: "real list list"
  el_alpha :: "real list"
  el_gamma :: real

text \<open>
  Modelled from the spec: the class \<^verbatim>\<open>MDP\<close> (module \<^verbatim>\<open>MDP\<close>) is missing from the sources.
  The spec describes the MDP Model as an immutable description of states, actions,
  transition probabilities, rewards, initial state distribution and discount factor, so
  the object is the record of the constructor's arguments.
\<close>

record MDP =
  mdp_name :: string
  mdp_states :: "nat list"
  mdp_actions :: "nat list"
  mdp_trans_func :: "nat \<Rightarrow> nat \<Rightarrow> nat \<Rightarrow> real"
  mdp_reward_func :: "nat \<Rightarrow> nat \<Rightarrow> real"
  mdp_initial_distr :: "real list"
  mdp_discount_factor :: real

text \<open>
  The closures \<^verbatim>\<open>trans_func(new_state, old_state, action)\<close> and
  \<^verbatim>\<open>reward_func(state, action)\<close>, the same in every family. They are read only inside the
  missing class; out of range the embedding gives \<open>0\<close>.
\<close>

definition trans_func :: "(nat \<rightharpoonup> real list list) \<Rightarrow> nat \<Rightarrow> nat \<Rightarrow> nat \<Rightarrow> real" where
  "trans_func trans_mat new_state old_state action =
     (case trans_mat action of
        None \<Rightarrow> 0
      | Some M \<Rightarrow> if old_state < length M \<and> new_state < length (M ! old_state)
                  then M ! old_state ! new_state else 0)"

definition reward_func :: "real list list \<Rightarrow> nat \<Rightarrow> nat \<Rightarrow> real" where
  "reward_func reward_mat state action =
     (if state < length reward_mat \<and> action < length (reward_mat ! state)
      then reward_mat ! state ! action else 0)"

subsection \<open>\<^verbatim>\<open>define_MDP\<close>: the random family\<close>

definition define_MDP_random ::
  "'g np_random \<Rightarrow> pynum list \<Rightarrow> 'g \<Rightarrow> py_error + (mdp_elements \<times> 'g)" where
  "define_MDP_random G params g =
     (if length params < 2 then Inl IndexError
      else
        let n_states = py_int (params ! 0);
            n_actions = py_int (params ! 1);
            states = [0..<nat n_states];
            actions = [0..<nat n_actions];
            (rand_mats, g1) = draws (np_rand2 G (length states) (length states)) (length actions) g;
            trans_mat = dict_of actions (\<lambda>a. normalize_rows (rand_mats ! a));
            (rew, g2) = draws (draws (randint G 0 100) (length actions)) (length states) g1;
            reward_mat = map (map real_of_int) rew;
            (u, g3) = np_rand G (length states) g2;
            initial_distr = normalize u;
            discount_factor = 999 / 1000
        in Inr (\<lparr>el_states = states, el_actions = actions, el_trans_mat = trans_mat,
                  el_reward_mat = reward_mat, el_alpha = initial_distr,
                  el_gamma = discount_factor\<rparr>, g3))"

subsection \<open>\<^verbatim>\<open>define_MDP\<close>: the queue family\<close>

text \<open>
  Row \<open>i\<close> of the matrix of an action with service rate \<open>qa\<close>: a row of zeros in which the
  loop body assigns two or three entries. For a single state the assignment to column
  \<open>1\<close> of row \<open>0\<close> raises \<^verbatim>\<open>IndexError\<close>, which \<open>define_MDP_queue\<close> tests before.
\<close>

definition queue_row :: "nat \<Rightarrow> real \<Rightarrow> real \<Rightarrow> nat \<Rightarrow> real list" where
  "queue_row n p qa i =
     (if i = 0 then (zeros n)[0 := 1 - p, 1 := p]
      else if i = n - 1 then (zeros n)[i - 1 := qa, i := 1 - qa]
      else (zeros n)[i - 1 := (1 - p) * qa,
                     i := (1 - p) * (1 - qa) + p * qa,
                     i + 1 := p * (1 - qa)])"

definition define_MDP_queue ::
  "'g np_random \<Rightarrow> pynum list \<Rightarrow> 'g \<Rightarrow> py_error + (mdp_elements \<times> 'g)" where
  "define_MDP_queue G params g =
     (if length params < 3 then Inl IndexError
      else if \<not> is_py_int (params ! 1) then Inl TypeError
      else if py_int (params ! 1) < 0 then Inl ValueError
      else if \<not> is_py_int (params ! 0) then Inl TypeError
      else
        let n_state = py_int (params ! 0);
            n_action = py_int (params ! 1);
            p = py_float (params ! 2);
            q = linspace 0 (1 - p) (nat n_action);
            states = [0..<nat n_state];
            actions = [0..<nat n_action]
        in if length states = 1 \<and> actions \<noteq> [] then Inl IndexError
           else
             let trans_mat = dict_of actions
                   (\<lambda>a. map (queue_row (length states) p (q ! a)) [0..<length states]);
                 reward_mat = map (\<lambda>i. map (\<lambda>j. - 1 * real (states ! i)
                                                   - 60 * (q ! j) * (q ! j) * (q ! j))
                                             [0..<length actions])
                                  [0..<length states];
                 (u, g1) = np_rand G (length states) g;
                 initial_distr = normalize u;
                 discount_factor = 999 / 1000
             in Inr (\<lparr>el_states = states, el_actions = actions, el_trans_mat = trans_mat,
                       el_reward_mat = reward_mat, el_alpha = initial_distr,
                       el_gamma = discount_factor\<rparr>, g1))"

subsection \<open>\<^verbatim>\<open>define_MDP\<close>: the bandit family\<close>

text \<open>
  \<^verbatim>\<open>list(product(range(n_states), repeat=n_arm))\<close> is \<open>product_lists\<close> of \<open>n_arm\<close> copies of
  the range: the last component varies fastest. The matrix of arm \<open>a\<close> moves component
  \<open>a\<close> of the state by \<open>trans_arm\<close> and leaves the other components as they are.
\<close>

definition bandit_mat :: "nat list list \<Rightarrow> real list list \<Rightarrow> nat \<Rightarrow> real list list" where
  "bandit_mat state_list trans_arm a =
     map (\<lambda>i. map (\<lambda>j. if take a (state_list ! i) = take a (state_list ! j)
                           \<and> drop (a + 1) (state_list ! i) = drop (a + 1) (state_list ! j)
                        then trans_arm ! (state_list ! i ! a) ! (state_list ! j ! a)
                        else 0)
                   [0..<length state_list])
         [0..<length state_list]"

definition define_MDP_bandit ::
  "'g np_random \<Rightarrow> pynum list \<Rightarrow> 'g \<Rightarrow> py_error + (mdp_elements \<times> 'g)" where
  "define_MDP_bandit G params g =
     (if length params < 2 then Inl IndexError
      else
        let n_arm = py_int (params ! 0);
            n_states = py_int (params ! 1)
        in if 0 < n_arm \<and> n_states < 0 then Inl ValueError
           else if n_arm < 0 then Inl ValueError
           else
             let (pr, g1) = draws (\<lambda>g. let (v, g') = uniform_rvs G 0 100 (nat n_states) g
                                        in (normalize (sort v), g')) (nat n_arm) g;
                 state_list = product_lists (replicate (nat n_arm) [0..<nat n_states]);
                 states = [0..<length state_list];
                 actions = [0..<nat n_arm];
                 (rand_arms, g2) = draws (np_rand2 G (nat n_states) (nat n_states))
                                         (length actions) g1;
                 trans_mat = dict_of actions
                   (\<lambda>a. bandit_mat state_list (normalize_rows (rand_arms ! a)) a);
                 reward_mat = map (\<lambda>i. map (\<lambda>a. (10 / real_of_int n_states)
                                                   * real (state_list ! i ! a))
                                             [0..<length actions])
                                  [0..<length states];
                 (u, g3) = np_rand G (length states) g2;
                 initial_distr = normalize u;
                 discount_factor = 999 / 1000
             in Inr (\<lparr>el_states = states, el_actions = actions, el_trans_mat = trans_mat,
                       el_reward_mat = reward_mat, el_alpha = initial_distr,
                       el_gamma = discount_factor\<rparr>, g3))"

subsection \<open>\<^verbatim>\<open>define_MDP\<close>: the inventory family\<close>

text \<open>
  \<open>inv_list\<close> is \<^verbatim>\<open>list(range(-1, n_inv))\<close>: state \<open>0\<close> is the overflow state of level \<open>-1\<close>,
  state \<open>i\<close> has the inventory level \<open>i - 1\<close>.
\<close>

definition inventory_row ::
  "int \<Rightarrow> int list \<Rightarrow> real list \<Rightarrow> real list \<Rightarrow> nat \<Rightarrow> nat \<Rightarrow> real list" where
  "inventory_row n_inv inv_list p q a i =
     (if inv_list ! i + int a \<ge> n_inv \<or> inv_list ! i = - 1
      then (zeros (length inv_list))[py_index inv_list (- 1) := 1]
      else map (\<lambda>j. if inv_list ! j = - 1 then 0
                     else let demand = inv_list ! i + int a - inv_list ! j
                          in if demand < 0 then 0
                             else if demand \<ge> 0 \<and> inv_list ! j > 0 then p ! nat demand
                             else if demand \<ge> 0 \<and> inv_list ! j = 0
                                  then q ! nat (inv_list ! i + int a)
                             else 0)
               [0..<length inv_list])"

definition inventory_reward_row ::
  "int \<Rightarrow> int list \<Rightarrow> nat list \<Rightarrow> real list \<Rightarrow> real \<Rightarrow> real \<Rightarrow> real \<Rightarrow> real
   \<Rightarrow> nat \<Rightarrow> real list" where
  "inventory_reward_row n_inv inv_list actions p b K c h i =
     (if inv_list ! i = - 1 then zeros (length actions)
      else map (\<lambda>a. if inv_list ! i + int (actions ! a) \<ge> n_inv then - 100000
                     else let Oa = (if actions ! a = 0 then 0
                                    else K + c * real (actions ! a))
                          in (\<Sum>j \<leftarrow> [0..<nat (inv_list ! i + int (actions ! a) - 1)].
                                 b * real j * p ! j)
                             - Oa - h * real_of_int (inv_list ! i + int (actions ! a)))
               [0..<length actions])"

definition define_MDP_inventory ::
  "'g np_random \<Rightarrow> pynum list \<Rightarrow> 'g \<Rightarrow> py_error + (mdp_elements \<times> 'g)" where
  "define_MDP_inventory G params g =
     (if length params < 1 then Inl IndexError
      else
        let n_inv = py_int (params ! 0) + 1;
            (b, g1) = uniform_rvs1 G 10 15 g;
            (K, g2) = uniform_rvs1 G 3 5 g1;
            (c, g3) = uniform_rvs1 G 5 7 g2;
            (h, g4) = uniform_rvs1 G (1 / 10) (2 / 10) g3
        in if n_inv < 0 then Inl ValueError
           else
             let (d, g5) = norm_rvs1 G (5 / 10 * real_of_int n_inv)
                                       (1 / 10 * real_of_int n_inv) g4;
                 p = normalize (map (poisson_pmf d) [0..<nat n_inv]);
                 q = map (\<lambda>i. sum_list (drop i p)) [0..<length p];
                 inv_list = map (\<lambda>k. int k - 1) [0..<nat n_inv + 1];
                 states = [0..<length inv_list];
                 actions = [0..<nat n_inv];
                 trans_mat = dict_of actions
                   (\<lambda>a. map (inventory_row n_inv inv_list p q a) [0..<length states]);
                 reward_mat = map (inventory_reward_row n_inv inv_list actions p b K c h)
                                  [0..<length states];
                 (u, g6) = np_rand G (length states - 1) g5;
                 initial_distr = 0 # normalize u;
                 discount_factor = 999 / 1000
             in Inr (\<lparr>el_states = states, el_actions = actions, el_trans_mat = trans_mat,
                       el_reward_mat = reward_mat, el_alpha = initial_distr,
                       el_gamma = discount_factor\<rparr>, g6))"

subsection \<open>\<^verbatim>\<open>define_MDP\<close>: the replace family\<close>

text \<open>
  Row \<open>i\<close> of the deterioration matrix \<open>p_det\<close>: a normal density on the states from \<open>i\<close>
  on, normalised, and zero below \<open>i\<close>. \<open>mu\<close> is the uniform draw made for this row.
\<close>

definition p_det_row :: "nat list \<Rightarrow> real \<Rightarrow> nat \<Rightarrow> real list" where
  "p_det_row states mu i =
     (let pr = normalize (map (\<lambda>x. norm_pdf (real x) (real (states ! i) - mu) (real i + 1))
                              (drop i states))
      in map (\<lambda>j. if j \<ge> i then pr ! (j - i) else 0) [0..<length states])"

definition replace_mat :: "nat \<Rightarrow> real list list \<Rightarrow> (nat \<Rightarrow> real) \<Rightarrow> nat \<Rightarrow> real list list" where
  "replace_mat n p_det p_res a =
     (if a = 0 then map (\<lambda>i. map (\<lambda>j. p_det ! i ! j) [0..<n]) [0..<n]
      else map (\<lambda>i. map (\<lambda>j. if j < i then p_res a * p_det ! 0 ! j
                                else sum_list [p_res a * p_det ! 0 ! j,
                                               (1 - p_res a) * p_det ! i ! j])
                          [0..<n])
               [0..<n])"

definition define_MDP_replace ::
  "'g np_random \<Rightarrow> pynum list \<Rightarrow> 'g \<Rightarrow> py_error + (mdp_elements \<times> 'g)" where
  "define_MDP_replace G params g =
     (if length params < 2 then Inl IndexError
      else
        let n_states = py_int (params ! 0);
            n_actions = py_int (params ! 1);
            states = [0..<nat n_states];
            actions = [0..<nat (n_actions + 1)];
            (mus, g1) = draws (uniform_rvs1 G 0 1) (length states) g;
            p_det = map (\<lambda>i. p_det_row states (mus ! i) i) [0..<length states]
        in if n_actions < 0 then Inl ValueError
           else
             let (pr0, g2) = uniform_rvs G 1 (real_of_int n_actions) (nat n_actions) g1;
                 pr = normalize pr0;
                 p_res = (\<lambda>a. pr ! (a - 1));
                 trans_mat = dict_of actions (replace_mat (length states) p_det p_res);
                 C_rew = 5 / 10 * real (length states);
                 C_rep = map (\<lambda>a. 1 / 10 * real (length states) * real a) actions;
                 (C_opr0, g3) = uniform_rvs G 0 (75 / 100 * real (length states))
                                            (length states) g2;
                 C_opr = sort C_opr0;
                 reward_mat = map (\<lambda>i. map (\<lambda>j. C_rew - C_rep ! j - C_opr ! i)
                                             [0..<length actions])
                                  [0..<length states]
             in if n_states = 0 then Inl ZeroDivisionError
                else
                  let initial_distr = replicate (nat n_states) (1 / real_of_int n_states);
                      discount_factor = 999 / 1000
                  in Inr (\<lparr>el_states = states, el_actions = actions, el_trans_mat = trans_mat,
                            el_reward_mat = reward_mat, el_alpha = initial_distr,
                            el_gamma = discount_factor\<rparr>, g3))"

subsection \<open>\<^verbatim>\<open>define_MDP\<close>: the transmission family\<close>

text \<open>
  A state is a pair (channel, packages left). \<open>p a\<close> is the vector of success rates of
  effort \<open>a\<close>, one per channel.
\<close>

definition transmission_mat ::
  "(nat \<times> nat) list \<Rightarrow> real list list \<Rightarrow> (nat \<Rightarrow> real list) \<Rightarrow> nat \<Rightarrow> real list list" where
  "transmission_mat state_list channel_trans p a =
     (if a = 0
      then map (\<lambda>i. map (\<lambda>j. if snd (state_list ! i) = snd (state_list ! j)
                                then channel_trans ! fst (state_list ! i) ! fst (state_list ! j)
                                else 0)
                          [0..<length state_list])
               [0..<length state_list]
      else map (\<lambda>i. map (\<lambda>j.
                   if snd (state_list ! i) = 0 \<and> snd (state_list ! i) = snd (state_list ! j)
                   then channel_trans ! fst (state_list ! i) ! fst (state_list ! j)
                   else if snd (state_list ! i) = snd (state_list ! j)
                   then channel_trans ! fst (state_list ! i) ! fst (state_list ! j)
                        * (1 - p a ! fst (state_list ! i))
                   else if int (snd (state_list ! i)) - 1 = int (snd (state_list ! j))
                   then channel_trans ! fst (state_list ! i) ! fst (state_list ! j)
                        * p a ! fst (state_list ! i)
                   else 0)
                          [0..<length state_list])
               [0..<length state_list])"

definition define_MDP_transmission ::
  "'g np_random \<Rightarrow> pynum list \<Rightarrow> 'g \<Rightarrow> py_error + (mdp_elements \<times> 'g)" where
  "define_MDP_transmission G params g =
     (if length params < 3 then Inl IndexError
      else if \<not> is_py_int (params ! 0) then Inl TypeError
      else if 0 < py_int (params ! 0) \<and> \<not> is_py_int (params ! 1) then Inl TypeError
      else if \<not> is_py_int (params ! 2) then Inl TypeError
      else
        let n_channel = py_int (params ! 0);
            n_package = py_int (params ! 1);
            n_action = py_int (params ! 2);
            state_list = concat (map (\<lambda>j. map (\<lambda>k. (j, k)) [0..<nat (n_package + 1)])
                                     [0..<nat n_channel]);
            states = [0..<length state_list];
            actions = [0..<nat (n_action + 1)]
        in if n_action < 0 then Inl ValueError
           else
             let (mu0, g1) = uniform_rvs G 0 1 (nat n_action) g;
                 mu = sort mu0;
                 p = (\<lambda>a. normalize (map (\<lambda>x. norm_pdf (real x) (real_of_int n_channel - 1)
                                                        (1 / mu ! (a - 1)))
                                          [0..<nat n_channel]));
                 (ct0, g2) = uniform_rvs G 5 15 (nat n_action) g1;
                 c_t = map (\<lambda>x. - 1 * x) (sort (map abs ct0));
                 (ch0, g3) = uniform_rvs1 G 0 5 g2;
                 c_h = - 1 * \<bar>ch0\<bar>
             in if n_channel < 0 then Inl ValueError
                else
                  let (ct_raw, g4) = np_rand2 G (nat n_channel) (nat n_channel) g3;
                      channel_trans = normalize_rows ct_raw;
                      trans_mat = dict_of actions (transmission_mat state_list channel_trans p);
                      reward_mat = map (\<lambda>i. map (\<lambda>j.
                            if actions ! j = 0 then real (snd (state_list ! i)) * c_h
                            else sum_list [real (snd (state_list ! i)) * c_h, c_t ! (j - 1)])
                                                  [0..<length actions])
                                       [0..<length states];
                      (u, g5) = np_rand G (length states) g4;
                      initial_distr = normalize u;
                      discount_factor = 999 / 1000
                  in Inr (\<lparr>el_states = states, el_actions = actions, el_trans_mat = trans_mat,
                            el_reward_mat = reward_mat, el_alpha = initial_distr,
                            el_gamma = discount_factor\<rparr>, g5))"

subsection \<open>\<^verbatim>\<open>define_MDP\<close>\<close>

text \<open>
  The chain \<^verbatim>\<open>if "random" in name: ... elif "queue" in name: ...\<close> picks the first
  family whose word occurs in the name.
\<close>

datatype family = Random | Queue | Bandit | Inventory | Replace | Transmission

definition family_of :: "string \<Rightarrow> family option" where
  "family_of name =
     (if sublist ''random'' name then Some Random
      else if sublist ''queue'' name then Some Queue
      else if sublist ''bandit'' name then Some Bandit
      else if sublist ''inventory'' name then Some Inventory
      else if sublist ''replace'' name then Some Replace
      else if sublist ''transmission'' name then Some Transmission
      else None)"

text \<open>
  The body of the chosen branch. A name of no family leaves \<^verbatim>\<open>states\<close> unbound, and
  building the model raises \<^verbatim>\<open>UnboundLocalError\<close>.
\<close>

definition define_elements ::
  "'g np_random \<Rightarrow> string \<Rightarrow> pynum list \<Rightarrow> 'g \<Rightarrow> py_error + (mdp_elements \<times> 'g)" where
  "define_elements G name params g =
     (case family_of name of
        Some Random \<Rightarrow> define_MDP_random G params g
      | Some Queue \<Rightarrow> define_MDP_queue G params g
      | Some Bandit \<Rightarrow> define_MDP_bandit G params g
      | Some Inventory \<Rightarrow> define_MDP_inventory G params g
      | Some Replace \<Rightarrow> define_MDP_replace G params g
      | Some Transmission \<Rightarrow> define_MDP_transmission G params g
      | None \<Rightarrow> Inl UnboundLocalError)"

definition define_MDP ::
  "'g np_random \<Rightarrow> string \<Rightarrow> pynum list \<Rightarrow> 'g \<Rightarrow> py_error + ((MDP \<times> mdp_elements) \<times> 'g)" where
  "define_MDP G name params g =
     (case define_elements G name params g of
        Inl e \<Rightarrow> Inl e
      | Inr (el, g') \<Rightarrow>
          Inr ((\<lparr>mdp_name = name, mdp_states = el_states el, mdp_actions = el_actions el,
                  mdp_trans_func = trans_func (el_trans_mat el),
                  mdp_reward_func = reward_func (el_reward_mat el),
                  mdp_initial_distr = el_alpha el,
                  mdp_discount_factor = el_gamma el\<rparr>, el), g'))"

subsection \<open>A concrete generator\<close>

text \<open>
  A generator on which the theorems below are instantiated: the state counts the draws,
  every uniform draw is \<open>1/2\<close>, every normal draw is \<open>0\<close>, every integer draw is the lower
  end of its range.
\<close>

definition G0 :: "nat np_random" where
  "G0 = \<lparr>seed = (\<lambda>n. n), random_sample = (\<lambda>g. (1 / 2, Suc g)),
         standard_normal = (\<lambda>g. (0, Suc g)), randint = (\<lambda>lo hi g. (lo, Suc g))\<rparr>"

subsection \<open>Probability vectors and the assumptions on the generator\<close>





subsection \<open>Entries of the transmission matrices\<close>



subsection \<open>Valid parameter tuples\<close>


subsection \<open>The decomposition engine and the experiment drivers\<close>











text \<open>
  Modelled from the spec: the controller \<^verbatim>\<open>MDP_decomposition\<close> (section 4.3), missing from
  the sources. The LP solver is external and a parameter \<open>solve\<close>. The cut pool starts
  empty; each iteration solves the master the object refers to, generates the cuts, stops
  when there is none, and otherwise adds the cuts that are not in the pool to the master
  in the store. \<open>max_iter\<close> is the iteration budget. Wall-clock times are not modelled.
\<close>

datatype failure = Infeasible | Numerical | IterationBudgetExceeded








subsection \<open>\<^verbatim>\<open>main\<close> up to the first instance\<close>


subsection \<open>Properties of the master LP\<close>

lemma add_theta_vars_fields:
  "grb_params (add_theta_vars ks m) = grb_params m"
  "grb_objective (add_theta_vars ks m) = grb_objective m"
  "grb_sense (add_theta_vars ks m) = grb_sense m"
  "grb_constrs (add_theta_vars ks m) = grb_constrs m"
  by (induction ks arbitrary: m) (simp_all add: addVar_def)

lemma add_theta_vars_vars:
  "grb_vars (add_theta_vars ks m) =
     grb_vars m @ map (\<lambda>s. \<lparr>var_name = ''theta_'' @ str_nat s, lb = - (10 ^ 10),
                         ub = GRB_INFINITY, vtype = CONTINUOUS\<rparr>) ks"
  by (induction ks arbitrary: m) (simp_all add: addVar_def)

lemma define_MP_Inr:
  assumes "define_MP states initial_distr = Inr m"
  shows "length states \<le> length initial_distr"
    and "grb_vars m = map (\<lambda>s. \<lparr>var_name = ''theta_'' @ str_nat s, lb = - (10 ^ 10),
                              ub = GRB_INFINITY, vtype = CONTINUOUS\<rparr>) [0..<length states]"
    and "grb_objective m = map (\<lambda>s. (initial_distr ! s, s)) [0..<length states]"
    and "grb_sense m = MINIMIZE"
    and "grb_constrs m = []"
    and "grb_params m ''IntFeasTol'' = Some (PReal (1 / 10 ^ 9))"
    and "grb_params m ''NumericFocus'' = Some (PInt 3)"
  using assms
  by (auto simp: define_MP_def Let_def setObjective_def setParam_def grb_Model_def
      add_theta_vars_fields add_theta_vars_vars split: if_splits)

lemma define_MP_total:
  "length states \<le> length initial_distr \<Longrightarrow> \<exists>m. define_MP states initial_distr = Inr m"
  by (simp add: define_MP_def Let_def)

lemma eval_lin_objective:
  "eval_lin (map (\<lambda>s. (d ! s, s)) [0..<n]) \<theta> = (\<Sum>s<n. d ! s * \<theta> ! s)"
proof -
  have "eval_lin (map (\<lambda>s. (d ! s, s)) [0..<n]) \<theta> = (\<Sum>s\<leftarrow>[0..<n]. d ! s * \<theta> ! s)"
    by (simp add: eval_lin_def comp_def)
  also have "\<dots> = (\<Sum>s<n. d ! s * \<theta> ! s)"
    by (simp add: interv_sum_list_conv_sum_set_nat atLeast0LessThan)
  finally show ?thesis .
qed

text \<open>
  Claim C3, as amended. The master LP built by \<open>define_MP\<close> has exactly one variable per
  state, the variable of index \<open>s\<close> is named \<open>theta_s\<close>, each one is continuous and has no
  finite upper bound, and each one has the finite lower bound \<open>-1e10\<close>: it is bounded
  below, not free.
\<close>

theorem define_MP_theta_vars:
  assumes "define_MP states initial_distr = Inr m"
  shows "length (grb_vars m) = length states
         \<and> (\<forall>s < length states.
               var_name (grb_vars m ! s) = ''theta_'' @ str_nat s
               \<and> vtype (grb_vars m ! s) = CONTINUOUS
               \<and> lb (grb_vars m ! s) = - (10 ^ 10)
               \<and> \<not> is_unbounded_below (grb_vars m ! s)
               \<and> has_no_upper_bound (grb_vars m ! s))"
proof -
  have v: "grb_vars m = map (\<lambda>s. \<lparr>var_name = ''theta_'' @ str_nat s, lb = - (10 ^ 10),
                              ub = GRB_INFINITY, vtype = CONTINUOUS\<rparr>) [0..<length states]"
    by (rule define_MP_Inr(2) [OF assms])
  have b: "\<not> (10::real) ^ 10 \<ge> 10 ^ 20" "(10::real) ^ 20 \<le> 10 ^ 100"
    by simp_all
  show ?thesis
    using b by (simp add: v is_unbounded_below_def has_no_upper_bound_def GRB_INFINITY_def)
qed

theorem define_MP_theta_vars_witness:
  "\<exists>m. define_MP [0, 1] [1 / 2, 1 / 2] = Inr m
       \<and> length (grb_vars m) = 2
       \<and> lb (grb_vars m ! 0) = - (10 ^ 10) \<and> lb (grb_vars m ! 1) = - (10 ^ 10)
       \<and> has_no_upper_bound (grb_vars m ! 0) \<and> has_no_upper_bound (grb_vars m ! 1)"
proof -
  obtain m where m: "define_MP [0, 1] [1 / 2, 1 / 2] = Inr m"
    using define_MP_total [of "[0, 1]" "[1 / 2, 1 / 2]"] by auto
  show ?thesis
    using define_MP_theta_vars [OF m] m by (auto simp: numeral_2_eq_2)
qed

text \<open>
  Claim C3, as stated, fails: for the one-state instance the variable \<open>theta_0\<close> of the
  master LP is not free, since its lower bound \<open>-1e10\<close> is finite.
\<close>

theorem define_MP_theta_free_counterexample:
  "\<not> (\<forall>m. define_MP [0] [1] = Inr m \<longrightarrow> (\<forall>v \<in> set (grb_vars m). is_free v))"
proof
  assume a: "\<forall>m. define_MP [0] [1] = Inr m \<longrightarrow> (\<forall>v \<in> set (grb_vars m). is_free v)"
  obtain m where m: "define_MP [0] [1] = Inr m"
    using define_MP_total [of "[0]" "[1]"] by auto
  have v: "grb_vars m = [\<lparr>var_name = ''theta_'' @ str_nat 0, lb = - (10 ^ 10),
                      ub = GRB_INFINITY, vtype = CONTINUOUS\<rparr>]"
    using define_MP_Inr(2) [OF m] by simp
  from a m have "\<forall>v \<in> set (grb_vars m). is_free v" by blast
  then have "(10::real) ^ 20 \<le> 10 ^ 10"
    by (simp add: v is_free_def is_unbounded_below_def)
  then show False by simp
qed

text \<open>
  Claim C4. The objective of the master LP is the expected value under the initial
  distribution: at every assignment \<open>\<theta>\<close> of the variables its value is the sum over the
  states \<open>s\<close> of \<open>initial_distr[s] * \<theta>[s]\<close>, and the sense is minimisation.
\<close>

theorem define_MP_objective:
  assumes "define_MP states initial_distr = Inr m"
  shows "eval_lin (grb_objective m) \<theta> = (\<Sum>s<length states. initial_distr ! s * \<theta> ! s)
         \<and> grb_sense m = MINIMIZE"
  using define_MP_Inr(3,4) [OF assms] by (simp add: eval_lin_objective)

theorem define_MP_objective_witness:
  "\<exists>m. define_MP [0, 1] [1 / 4, 3 / 4] = Inr m
       \<and> eval_lin (grb_objective m) [8, 4] = 5 \<and> grb_sense m = MINIMIZE"
proof -
  obtain m where m: "define_MP [0, 1] [1 / 4, 3 / 4] = Inr m"
    using define_MP_total [of "[0, 1]" "[1 / 4, 3 / 4]"] by auto
  have "(\<Sum>s<length [0::nat, 1]. [1 / 4, 3 / 4] ! s * [8, 4] ! s) = (5::real)"
    by (simp add: numeral_2_eq_2)
  then show ?thesis
    using define_MP_objective [OF m, of "[8, 4]"] m by simp
qed

text \<open>
  Claim C5. The master LP returned by \<open>define_MP\<close> contains no linear constraint.
\<close>

theorem define_MP_unconstrained:
  assumes "define_MP states initial_distr = Inr m"
  shows "grb_constrs m = []"
  by (rule define_MP_Inr(5) [OF assms])

theorem define_MP_unconstrained_witness:
  "\<exists>m. define_MP [0, 1, 2] [1 / 2, 1 / 4, 1 / 4] = Inr m \<and> grb_constrs m = []"
proof -
  obtain m where m: "define_MP [0, 1, 2] [1 / 2, 1 / 4, 1 / 4] = Inr m"
    using define_MP_total [of "[0, 1, 2]" "[1 / 2, 1 / 4, 1 / 4]"] by auto
  show ?thesis
    using define_MP_unconstrained [OF m] m by simp
qed

text \<open>
  Claim C6. Every master model built by \<open>define_MP\<close> has the parameter \<open>IntFeasTol\<close> set to
  \<open>1e-9\<close> and the parameter \<open>NumericFocus\<close> set to \<open>3\<close>.
\<close>

theorem define_MP_numeric_params:
  assumes "define_MP states initial_distr = Inr m"
  shows "grb_params m ''IntFeasTol'' = Some (PReal (1 / 10 ^ 9))
         \<and> grb_params m ''NumericFocus'' = Some (PInt 3)"
  using define_MP_Inr(6,7) [OF assms] by simp

theorem define_MP_numeric_params_witness:
  "\<exists>m. define_MP [0] [1] = Inr m
       \<and> grb_params m ''IntFeasTol'' = Some (PReal (1 / 10 ^ 9))
       \<and> grb_params m ''NumericFocus'' = Some (PInt 3)"
proof -
  obtain m where m: "define_MP [0] [1] = Inr m"
    using define_MP_total [of "[0]" "[1]"] by auto
  show ?thesis
    using define_MP_numeric_params [OF m] m by simp
qed

subsection \<open>Draws, dictionaries and the result of \<^verbatim>\<open>define_MDP\<close>\<close>

lemma draws_length: "length (fst (draws f n g)) = n"
proof (induction n arbitrary: g)
  case 0
  then show ?case by simp
next
  case (Suc n)
  obtain x g1 where f: "f g = (x, g1)" by (cases "f g")
  obtain xs g2 where d: "draws f n g1 = (xs, g2)" by (cases "draws f n g1")
  show ?case using Suc [of g1] by (simp add: f d)
qed

lemma draws_set: "set (fst (draws f n g)) \<subseteq> range (\<lambda>g. fst (f g))"
proof (induction n arbitrary: g)
  case 0
  then show ?case by simp
next
  case (Suc n)
  obtain x g1 where f: "f g = (x, g1)" by (cases "f g")
  obtain xs g2 where d: "draws f n g1 = (xs, g2)" by (cases "draws f n g1")
  have "x \<in> range (\<lambda>g. fst (f g))"
    using f by (metis fst_conv rangeI)
  moreover have "set xs \<subseteq> range (\<lambda>g. fst (f g))"
    using Suc [of g1] d by simp
  ultimately show ?case
    by (simp add: f d)
qed

lemma dict_of_Some: "a \<in> set keys \<Longrightarrow> dict_of keys f a = Some (f a)"
  by (simp add: dict_of_def map_of_map_restrict)

lemma dict_of_None: "a \<notin> set keys \<Longrightarrow> dict_of keys f a = None"
  by (simp add: dict_of_def map_of_map_restrict)

subsection \<open>The inventory family\<close>

lemma define_MDP_inventory_Inr:
  assumes "define_MDP_inventory G params g = Inr (el, g')"
  obtains b K c h z d p q inv_list u n_inv where
    "0 < length params" "n_inv = py_int (params ! 0) + 1" "0 \<le> n_inv"
    "z \<in> range (\<lambda>g. fst (standard_normal G g))"
    "d = 5 / 10 * real_of_int n_inv + 1 / 10 * real_of_int n_inv * z"
    "p = normalize (map (poisson_pmf d) [0..<nat n_inv])"
    "q = map (\<lambda>i. sum_list (drop i p)) [0..<length p]"
    "inv_list = map (\<lambda>k. int k - 1) [0..<nat n_inv + 1]"
    "set u \<subseteq> range (\<lambda>g. fst (random_sample G g))"
    "length u = nat n_inv"
    "el_states el = [0..<nat n_inv + 1]"
    "el_actions el = [0..<nat n_inv]"
    "el_trans_mat el = dict_of [0..<nat n_inv]
       (\<lambda>a. map (inventory_row n_inv inv_list p q a) [0..<nat n_inv + 1])"
    "el_reward_mat el = map (inventory_reward_row n_inv inv_list [0..<nat n_inv] p b K c h)
                            [0..<nat n_inv + 1]"
    "el_alpha el = 0 # normalize u"
    "el_gamma el = 999 / 1000"
proof -
  let ?n = "py_int (params ! 0) + 1"
  obtain b g1 where b: "uniform_rvs1 G 10 15 g = (b, g1)" by (cases "uniform_rvs1 G 10 15 g")
  obtain K g2 where K: "uniform_rvs1 G 3 5 g1 = (K, g2)" by (cases "uniform_rvs1 G 3 5 g1")
  obtain c g3 where c: "uniform_rvs1 G 5 7 g2 = (c, g3)" by (cases "uniform_rvs1 G 5 7 g2")
  obtain h g4 where h: "uniform_rvs1 G (1 / 10) (2 / 10) g3 = (h, g4)"
    by (cases "uniform_rvs1 G (1 / 10) (2 / 10) g3")
  obtain z g5 where z: "standard_normal G g4 = (z, g5)" by (cases "standard_normal G g4")
  obtain u g6 where u: "draws (random_sample G) (nat ?n) g5 = (u, g6)"
    by (cases "draws (random_sample G) (nat ?n) g5")
  have zr: "z \<in> range (\<lambda>g. fst (standard_normal G g))"
    using z by (metis fst_conv rangeI)
  have us: "set u \<subseteq> range (\<lambda>g. fst (random_sample G g))"
    using draws_set [of "random_sample G" "nat ?n" g5] u by simp
  have ul: "length u = nat ?n"
    using draws_length [of "random_sample G" "nat ?n" g5] u by simp
  from assms have p: "0 < length params" "0 \<le> ?n"
    by (auto simp: define_MDP_inventory_def Let_def split: if_splits prod.splits)
  define d where "d = 5 / 10 * real_of_int ?n + 1 / 10 * real_of_int ?n * z"
  define pp where "pp = normalize (map (poisson_pmf d) [0..<nat ?n])"
  define q where "q = map (\<lambda>i. sum_list (drop i pp)) [0..<length pp]"
  define inv_list where "inv_list = map (\<lambda>k. int k - 1) [0..<nat ?n + 1]"
  from assms p have el: "el = \<lparr>el_states = [0..<nat ?n + 1], el_actions = [0..<nat ?n],
     el_trans_mat = dict_of [0..<nat ?n]
       (\<lambda>a. map (inventory_row ?n inv_list pp q a) [0..<nat ?n + 1]),
     el_reward_mat = map (inventory_reward_row ?n inv_list [0..<nat ?n] pp b K c h)
                 [0..<nat ?n + 1],
     el_alpha = 0 # normalize u, el_gamma = 999 / 1000\<rparr>"
    unfolding define_MDP_inventory_def Let_def b K c h norm_rvs1_def z np_rand_def
      d_def pp_def q_def inv_list_def prod.case
    by (simp add: u del: upt_Suc)
  show ?thesis
    by (rule that [where b = b and K = K and c = c and h = h,
          OF p(1) refl p(2) zr d_def pp_def q_def inv_list_def us ul])
       (simp_all add: el del: upt_Suc)
qed

lemma define_MDP_inventory_total:
  assumes "0 < length params" "0 \<le> py_int (params ! 0) + 1"
  shows "\<exists>el g'. define_MDP_inventory G params g = Inr (el, g')"
  using assms
  unfolding define_MDP_inventory_def Let_def
  by (auto split: prod.splits)


lemma define_MDP_Inr:
  assumes "define_MDP G name params g = Inr ((M, el), g')"
  shows "define_elements G name params g = Inr (el, g')"
    and "M = \<lparr>mdp_name = name, mdp_states = el_states el, mdp_actions = el_actions el,
               mdp_trans_func = trans_func (el_trans_mat el),
               mdp_reward_func = reward_func (el_reward_mat el),
               mdp_initial_distr = el_alpha el,
               mdp_discount_factor = el_gamma el\<rparr>"
  using assms by (auto simp: define_MDP_def split: sum.splits)

lemma define_MDP_total:
  assumes "define_elements G name params g = Inr (el, g')"
  shows "\<exists>M. define_MDP G name params g = Inr ((M, el), g')"
  using assms by (simp add: define_MDP_def)

lemma define_elements_inventory:
  "family_of name = Some Inventory \<Longrightarrow>
   define_elements G name params g = define_MDP_inventory G params g"
  by (simp add: define_elements_def)

lemma inventory_reward_row_overflow:
  assumes "s < length inv_list" "inv_list ! s \<noteq> - 1" "a < length actions"
    and "n_inv \<le> inv_list ! s + int (actions ! a)"
  shows "inventory_reward_row n_inv inv_list actions p b K c h s ! a = - 100000"
  using assms by (simp add: inventory_reward_row_def)

lemma inventory_reward_row_length:
  "length (inventory_reward_row n_inv inv_list actions p b K c h s) = length actions"
  by (simp add: inventory_reward_row_def zeros_def)

text \<open>
  Claim C8. In the inventory family, for every state \<open>s\<close> other than the overflow state
  (index \<open>0\<close>; state \<open>s\<close> has the inventory level \<open>s - 1\<close>) and every action \<open>a\<close> with
  level plus \<open>a\<close> at least the capacity \<open>n_inv = int(params[0]) + 1\<close>, the reward
  \<open>R(s, a)\<close> returned by \<open>define_MDP\<close> is \<open>-100000\<close>, in the reward matrix and through
  the reward function of the model.
\<close>

theorem inventory_overflow_reward:
  assumes fam: "family_of name = Some Inventory"
    and ret: "define_MDP G name params g = Inr ((M, el), g')"
    and s: "s \<in> set (el_states el)" "s \<noteq> 0"
    and a: "a \<in> set (el_actions el)"
    and ov: "py_int (params ! 0) + 1 \<le> (int s - 1) + int a"
  shows "el_reward_mat el ! s ! a = - 100000 \<and> mdp_reward_func M s a = - 100000"
proof -
  have inv: "define_MDP_inventory G params g = Inr (el, g')"
    using define_MDP_Inr(1) [OF ret] by (simp add: define_elements_inventory [OF fam])
  show ?thesis
  proof (rule define_MDP_inventory_Inr [OF inv], goal_cases)
    case (1 b K c h z d p q inv_list u n_inv)
    note n = 1(2) and il = 1(8) and st = 1(11) and ac = 1(12) and rw = 1(14)
    have sl: "s < nat n_inv + 1" using s(1) st by auto
    have al: "a < nat n_inv" using a ac by simp
    have row: "el_reward_mat el ! s
               = inventory_reward_row n_inv inv_list [0..<nat n_inv] p b K c h s"
      using sl by (simp add: rw del: upt_Suc)
    have ils: "inv_list ! s = int s - 1"
      using sl by (simp add: il del: upt_Suc)
    have ill: "length inv_list = nat n_inv + 1"
      by (simp add: il)
    have v: "el_reward_mat el ! s ! a = - 100000"
      unfolding row
      by (rule inventory_reward_row_overflow)
         (use sl al s(2) ov n in \<open>simp_all add: ils ill\<close>)
    have "mdp_reward_func M s a = reward_func (el_reward_mat el) s a"
      by (simp add: define_MDP_Inr(2) [OF ret])
    also have "\<dots> = el_reward_mat el ! s ! a"
      using sl al by (simp add: reward_func_def row inventory_reward_row_length) (simp add: rw)
    finally show ?case using v by simp
  qed
qed

lemma G0_inventory_2:
  "\<exists>M el g'. define_MDP G0 ''inventory-2-0'' [PyInt 2] 0 = Inr ((M, el), g')"
proof -
  have f: "family_of ''inventory-2-0'' = Some Inventory"
    by (simp add: family_of_def sublist_code prefix_code)
  obtain el g' where "define_MDP_inventory G0 [PyInt 2] 0 = Inr (el, g')"
    using define_MDP_inventory_total [of "[PyInt 2]" G0 0] by auto
  then have "define_elements G0 ''inventory-2-0'' [PyInt 2] 0 = Inr (el, g')"
    by (simp add: define_elements_inventory [OF f])
  from define_MDP_total [OF this] show ?thesis by blast
qed

theorem inventory_overflow_reward_witness:
  "\<exists>M el g'. define_MDP G0 ''inventory-2-0'' [PyInt 2] 0 = Inr ((M, el), g')
     \<and> 2 \<in> set (el_states el) \<and> 2 \<in> set (el_actions el)
     \<and> el_reward_mat el ! 2 ! 2 = - 100000 \<and> mdp_reward_func M 2 2 = - 100000"
proof -
  have f: "family_of ''inventory-2-0'' = Some Inventory"
    by (simp add: family_of_def sublist_code prefix_code)
  obtain M el g' where r: "define_MDP G0 ''inventory-2-0'' [PyInt 2] 0 = Inr ((M, el), g')"
    using G0_inventory_2 by blast
  have inv: "define_MDP_inventory G0 [PyInt 2] 0 = Inr (el, g')"
    using define_MDP_Inr(1) [OF r] by (simp add: define_elements_inventory [OF f])
  have st: "el_states el = [0..<4]" and ac: "el_actions el = [0..<3]"
    using define_MDP_inventory_Inr [OF inv] by (simp_all del: upt_Suc)
  have s: "2 \<in> set (el_states el)" and a: "2 \<in> set (el_actions el)"
    by (simp_all add: st ac)
  show ?thesis
    using inventory_overflow_reward [OF f r s _ a] r s a by simp
qed


lemma py_index_hd: "py_index (x # xs) x = 0"
  by (simp add: py_index_def)

lemma inv_list_Cons:
  "map (\<lambda>k. int k - 1) [0..<n + 1] = (- 1) # map (\<lambda>k. int k - 1) [1..<n + 1]"
  by (simp add: upt_conv_Cons del: upt_Suc)

lemma inventory_row_overflow_state:
  assumes "inv_list = map (\<lambda>k. int k - 1) [0..<n + 1]"
  shows "inventory_row n_inv inv_list p q a 0 = (zeros (n + 1))[0 := 1]"
proof -
  have c: "inv_list = (- 1) # map (\<lambda>k. int k - 1) [1..<n + 1]"
    using assms inv_list_Cons by simp
  have "inv_list ! 0 = - 1" "py_index inv_list (- 1) = 0" "length inv_list = n + 1"
    by (simp_all add: c py_index_hd)
  then show ?thesis
    by (simp add: inventory_row_def)
qed

text \<open>
  Claim C10. In the inventory family the overflow state (index \<open>0\<close>, inventory level
  \<open>-1\<close>) is absorbing and has initial probability zero: for every action the transition
  probability from state \<open>0\<close> to state \<open>0\<close> is \<open>1\<close>, and the initial distribution is \<open>0\<close>
  at state \<open>0\<close>.
\<close>

theorem inventory_overflow_absorbing:
  assumes fam: "family_of name = Some Inventory"
    and ret: "define_MDP G name params g = Inr ((M, el), g')"
  shows "(\<forall>a \<in> set (el_actions el).
            \<exists>T. el_trans_mat el a = Some T \<and> T ! 0 ! 0 = 1 \<and> mdp_trans_func M 0 0 a = 1)
         \<and> el_alpha el ! 0 = 0 \<and> mdp_initial_distr M ! 0 = 0"
proof -
  have inv: "define_MDP_inventory G params g = Inr (el, g')"
    using define_MDP_Inr(1) [OF ret] by (simp add: define_elements_inventory [OF fam])
  have M: "mdp_trans_func M = trans_func (el_trans_mat el)" "mdp_initial_distr M = el_alpha el"
    by (simp_all add: define_MDP_Inr(2) [OF ret])
  show ?thesis
  proof (rule define_MDP_inventory_Inr [OF inv], goal_cases)
    case (1 b K c h z d p q inv_list u n_inv)
    note il = 1(8) and ac = 1(12) and tm = 1(13) and al = 1(15)
    have "\<exists>T. el_trans_mat el a = Some T \<and> T ! 0 ! 0 = 1 \<and> mdp_trans_func M 0 0 a = 1"
      if "a \<in> set (el_actions el)" for a
    proof -
      let ?T = "map (inventory_row n_inv inv_list p q a) [0..<nat n_inv + 1]"
      have T: "el_trans_mat el a = Some ?T"
        using that by (simp add: tm ac dict_of_Some del: upt_Suc)
      have r0: "?T ! 0 = (zeros (nat n_inv + 1))[0 := 1]"
        using inventory_row_overflow_state [OF il] by (simp add: upt_conv_Cons del: upt_Suc)
      have l: "0 < length ?T" "0 < length (?T ! 0)"
        unfolding r0 by (simp_all add: zeros_def del: upt_Suc)
      have v: "?T ! 0 ! 0 = 1"
        unfolding r0 by (simp add: zeros_def)
      have "mdp_trans_func M 0 0 a = 1"
        using l v unfolding M trans_func_def T by (simp del: upt_Suc)
      with T v show ?thesis by blast
    qed
    then show ?case
      by (simp add: M al)
  qed
qed

theorem inventory_overflow_absorbing_witness:
  "\<exists>M el g'. define_MDP G0 ''inventory-2-0'' [PyInt 2] 0 = Inr ((M, el), g')
     \<and> el_actions el = [0, 1, 2]
     \<and> (\<forall>a \<in> set (el_actions el).
            \<exists>T. el_trans_mat el a = Some T \<and> T ! 0 ! 0 = 1 \<and> mdp_trans_func M 0 0 a = 1)
     \<and> el_alpha el ! 0 = 0 \<and> mdp_initial_distr M ! 0 = 0"
proof -
  have f: "family_of ''inventory-2-0'' = Some Inventory"
    by (simp add: family_of_def sublist_code prefix_code)
  obtain M el g' where r: "define_MDP G0 ''inventory-2-0'' [PyInt 2] 0 = Inr ((M, el), g')"
    using G0_inventory_2 by blast
  have inv: "define_MDP_inventory G0 [PyInt 2] 0 = Inr (el, g')"
    using define_MDP_Inr(1) [OF r] by (simp add: define_elements_inventory [OF f])
  have "el_actions el = [0..<3]"
    using define_MDP_inventory_Inr [OF inv] by (simp del: upt_Suc)
  then have ac: "el_actions el = [0, 1, 2]"
    by (simp add: upt_rec)
  show ?thesis
    using inventory_overflow_absorbing [OF f r] r ac by blast
qed

subsection \<open>Normalised vectors\<close>






lemma normalize_length [simp]: "length (normalize v) = length v"
  by (simp add: normalize_def)



lemma np_rand_length [simp]: "length (fst (np_rand G n g)) = n"
  by (simp add: np_rand_def draws_length)







subsection \<open>The random family: distribution and transition matrices\<close>




subsection \<open>The queue family: distribution and transition matrices\<close>


lemma sum_list_zeros [simp]: "sum_list (zeros n) = 0"
  by (simp add: zeros_def sum_list_replicate)

lemma length_zeros [simp]: "length (zeros n) = n"
  by (simp add: zeros_def)

lemma nth_zeros [simp]: "i < n \<Longrightarrow> zeros n ! i = 0"
  by (simp add: zeros_def)



lemma queue_row_length [simp]: "length (queue_row n p qa i) = n"
  by (simp add: queue_row_def)






subsection \<open>The inventory family: distribution and transition matrices\<close>













subsection \<open>The replace family: distribution and transition matrices\<close>







lemma uniform_rvs_length [simp]: "length (fst (uniform_rvs G loc scale n g)) = n"
  by (simp add: uniform_rvs_def split_beta draws_length)






subsection \<open>The transmission family: distribution and transition matrices\<close>



lemma map_nth_fun: "map (\<lambda>j. g (xs ! j)) [0..<length xs] = map g xs"
  by (intro nth_equalityI) simp_all












subsection \<open>The bandit family: distribution and transition matrices\<close>

lemma sum_list_single:
  fixes c :: real
  assumes "distinct xs" "y \<in> set xs"
  shows "(\<Sum>x \<leftarrow> xs. if x = y then c else 0) = c"
  using assms
proof (induction xs)
  case Nil
  then show ?case by simp
next
  case (Cons x xs)
  show ?case
  proof (cases "x = y")
    case True
    then have "y \<notin> set xs" using Cons.prems by simp
    then have "(\<Sum>x \<leftarrow> xs. if x = y then c else 0) = (\<Sum>x \<leftarrow> xs. 0)"
      by (intro arg_cong [where f = sum_list] map_cong) auto
    then show ?thesis using True by simp
  next
    case False
    then show ?thesis using Cons by simp
  qed
qed

lemma sum_list_single_fun:
  fixes f :: "'a \<Rightarrow> real"
  assumes "distinct xs" "y \<in> set xs"
  shows "(\<Sum>x \<leftarrow> xs. if x = y then f x else 0) = f y"
proof -
  have "(\<Sum>x \<leftarrow> xs. if x = y then f x else 0) = (\<Sum>x \<leftarrow> xs. if x = y then f y else 0)"
    by (intro arg_cong [where f = sum_list] map_cong) auto
  then show ?thesis using sum_list_single [OF assms] by simp
qed












subsection \<open>All families\<close>











subsection \<open>The master handed to the monotone run\<close>






subsection \<open>Determinism of the instance generation\<close>



end
